theory Spec2Isabelle
  imports Main
begin

section \<open>JSON values and the Python runtime\<close>

text \<open>
  Messages are the values \<open>json.loads\<close> returns: \<open>None\<close>, booleans, integers,
  strings, lists and dicts (a dict is an association list with distinct keys, looked up
  with \<open>map_of\<close>). Non-integer numbers are outside the model.
\<close>

datatype json =
    JNull
  | JBool bool
  | JInt int
  | JStr string
  | JArr "json list"
  | JObj "(string \<times> json) list"

type_synonym py_dict = "(string \<times> json) list"

text \<open>\<open>d.get(k)\<close>: the value, or \<open>None\<close> when the key is missing.\<close>

definition dict_get :: "py_dict \<Rightarrow> string \<Rightarrow> json" where
  "dict_get d k = (case map_of d k of None \<Rightarrow> JNull | Some v \<Rightarrow> v)"

text \<open>\<open>k in d\<close> for a dict \<open>d\<close>.\<close>

definition dict_has :: "py_dict \<Rightarrow> string \<Rightarrow> bool" where
  "dict_has d k = (case map_of d k of None \<Rightarrow> False | Some v \<Rightarrow> True)"

text \<open>
  The exceptions the modelled code raises or catches. \<open>MCPError\<close> carries its
  \<open>details\<close> dict.
\<close>

datatype py_exc =
    MCPError py_dict
  | AttributeError
  | TypeError
  | KeyError
  | IndexError
  | JSONDecodeError
  | UnicodeDecodeError
  | ConnectionError
  | ProcessLookupError
  | UnboundLocalError
  | FutureTimeoutError
  | FutureCancelledError

text \<open>
  \<open>class MCPError\<close>: the constructor calls \<open>details.get("message", ...)\<close>, so a
  \<open>details\<close> that is not a dict raises \<open>AttributeError\<close> and no \<open>MCPError\<close> exists.
\<close>

definition new_MCPError :: "json \<Rightarrow> py_exc + py_exc" where
  "new_MCPError details =
     (case details of JObj d \<Rightarrow> Inr (MCPError d) | _ \<Rightarrow> Inl AttributeError)"

text \<open>
  Library functions of Python that the code calls and whose definition is not part of
  the repository are parameters of the model: \<open>repr\<close> of a list or dict, the UTF-8
  decoder of \<open>bytes.decode\<close> (\<open>None\<close> when it raises \<open>UnicodeDecodeError\<close>),
  \<open>str.strip\<close>, \<open>json.loads\<close> on a string (\<open>None\<close> when it raises
  \<open>JSONDecodeError\<close>), \<open>json.dumps\<close>, and the text \<open>str(e)\<close> of an exception.
  Every theorem below holds for all of them.
\<close>

record runtime =
  container_repr :: "json \<Rightarrow> string"
  bytes_decode :: "string \<Rightarrow> string option"
  str_strip :: "string \<Rightarrow> string"
  json_loads :: "string \<Rightarrow> json option"
  json_dumps :: "json \<Rightarrow> string"
  exc_str :: "py_exc \<Rightarrow> string"

text \<open>\<open>str(n)\<close> for a Python int: decimal digits, with a sign for negatives.\<close>

definition digit_char :: "nat \<Rightarrow> char" where
  "digit_char d = ''0123456789'' ! d"

function str_nat :: "nat \<Rightarrow> string" where
  "str_nat n = (if n < 10 then [digit_char n] else str_nat (n div 10) @ [digit_char (n mod 10)])"
  by pat_completeness auto
termination
  by (relation "measure id") auto

definition str_int :: "int \<Rightarrow> string" where
  "str_int i = (if i < 0 then CHR ''-'' # str_nat (nat (- i)) else str_nat (nat i))"

text \<open>The digit a character stands for (used to show that \<open>str\<close> is injective).\<close>

definition digit_val :: "char \<Rightarrow> nat" where "digit_val ch = of_char ch - 48"

text \<open>\<open>str(v)\<close> for a JSON value.\<close>

definition py_str :: "runtime \<Rightarrow> json \<Rightarrow> string" where
  "py_str rt v =
     (case v of
        JNull \<Rightarrow> ''None''
      | JBool b \<Rightarrow> (if b then ''True'' else ''False'')
      | JInt n \<Rightarrow> str_int n
      | JStr s \<Rightarrow> s
      | JArr xs \<Rightarrow> container_repr rt v
      | JObj d \<Rightarrow> container_repr rt v)"

section \<open>The client: \<open>BackgroundMCPClient\<close>\<close>

text \<open>
  An \<open>asyncio.Future\<close> is pending, holds a result, holds an exception, or is
  cancelled. Futures are shared objects (the table and the waiting caller hold the same
  one), so they live in a store indexed by reference.
\<close>

datatype fut_state = Pending | Result json | Exception py_exc | Cancelled

definition fut_done :: "fut_state \<Rightarrow> bool" where
  "fut_done f = (case f of Pending \<Rightarrow> False | _ \<Rightarrow> True)"

datatype task_state = TaskRunning | TaskDone

text \<open>
  The subprocess handle: \<open>returncode\<close> as asyncio reports it, and whether the stdin
  transport \<open>is_closing()\<close>. The pipes themselves always exist (the process is
  started with \<open>PIPE\<close> for all three).
\<close>

record process =
  returncode :: "int option"
  stdin_closing :: bool

record client =
  process :: "process option"
  is_connected :: bool
  request_id_counter :: int
  pending_requests :: "string \<rightharpoonup> nat"
  reader_task :: "task_state option"
  stderr_task :: "task_state option"
  keep_alive :: bool
  loop_running :: "bool option"
  futures :: "nat \<Rightarrow> fut_state"
  next_future :: nat

text \<open>\<open>__init__\<close>.\<close>

definition init_client :: client where
  "init_client =
     \<lparr> process = None, is_connected = False, request_id_counter = 0,
       pending_requests = Map.empty, reader_task = None, stderr_task = None,
       keep_alive = True, loop_running = None,
       futures = (\<lambda>r. Pending), next_future = 0 \<rparr>"

text \<open>\<open>_get_next_request_id\<close>.\<close>

definition get_next_request_id :: "client \<Rightarrow> client \<times> string" where
  "get_next_request_id c =
     (let c' = c\<lparr>request_id_counter := request_id_counter c + 1\<rparr>
      in (c', str_int (request_id_counter c')))"

text \<open>\<open>loop.create_future()\<close>: a fresh pending future.\<close>

definition create_future :: "client \<Rightarrow> client \<times> nat" where
  "create_future c =
     (c\<lparr>futures := (futures c)(next_future c := Pending), next_future := Suc (next_future c)\<rparr>,
      next_future c)"

definition set_future :: "client \<Rightarrow> nat \<Rightarrow> fut_state \<Rightarrow> client" where
  "set_future c r v = c\<lparr>futures := (futures c)(r := v)\<rparr>"

text \<open>
  \<open>_handle_response\<close>. The result is the client afterwards and the exception that
  left the method, if any (the table may already have been changed when it is raised).
  A message that is not a dict has no \<open>get\<close>.
\<close>

definition invalid_response_details :: py_dict where
  "invalid_response_details =
     [(''message'', JStr ''Invalid response format''), (''code'', JInt (- 32000))]"

definition handle_response :: "runtime \<Rightarrow> client \<Rightarrow> json \<Rightarrow> client \<times> py_exc option" where
  "handle_response rt c response =
     (case response of
        JObj d \<Rightarrow>
          (let request_id = dict_get d ''id'' in
           if request_id \<noteq> JNull then
             (let request_id_str = py_str rt request_id;
                  future = pending_requests c request_id_str;
                  c1 = c\<lparr>pending_requests := (pending_requests c)(request_id_str := None)\<rparr>
              in case future of
                   Some r \<Rightarrow>
                     if fut_done (futures c r) then (c1, None)
                     else
                       (case map_of d ''result'' of
                          Some v \<Rightarrow> (set_future c1 r (Result v), None)
                        | None \<Rightarrow>
                            (case map_of d ''error'' of
                               Some e \<Rightarrow>
                                 (case new_MCPError e of
                                    Inr exc \<Rightarrow> (set_future c1 r (Exception exc), None)
                                  | Inl raised \<Rightarrow> (c1, Some raised))
                             | None \<Rightarrow>
                                 (set_future c1 r (Exception (MCPError invalid_response_details)),
                                  None)))
                 | None \<Rightarrow> (c1, None))
           else (c, None))
      | _ \<Rightarrow> (c, Some AttributeError))"


subsection \<open>Waiting for a response\<close>

definition mcp_error :: "string \<Rightarrow> int \<Rightarrow> py_exc" where
  "mcp_error msg code = MCPError [(''message'', JStr msg), (''code'', JInt code)]"

text \<open>
  \<open>_send_request_and_wait_async\<close> suspends at \<open>await asyncio.wait_for(future, ...)\<close>;
  the model has one function for the part before the suspension and one for the part
  after it. While the future is pending the wait ends by a timeout or by a cancellation
  (\<open>wait_for\<close> cancels the future in both cases); once the future is done the wait
  returns its result or raises its exception.
\<close>

datatype wait_event = WaitTimeout | WaitCancelled

definition send_request_and_wait_async_await ::
  "client \<Rightarrow> string \<Rightarrow> string \<Rightarrow> nat \<Rightarrow> wait_event \<Rightarrow> client \<times> (py_exc + json)" where
  "send_request_and_wait_async_await c meth request_id future ev =
     (case futures c future of
        Result v \<Rightarrow> (c, Inr v)
      | Exception e \<Rightarrow> (c, Inl e)
      | Cancelled \<Rightarrow>
          (c, Inl (mcp_error
                (''Request cancelled, possibly due to connection loss: '' @ meth) (- 32004)))
      | Pending \<Rightarrow>
          (case ev of
             WaitTimeout \<Rightarrow>
               (let c1 = set_future c future Cancelled;
                    c2 = c1\<lparr>pending_requests := (pending_requests c1)(request_id := None)\<rparr>
                in (c2, Inl (mcp_error (''Request timed out: '' @ meth) (- 32003))))
           | WaitCancelled \<Rightarrow>
               (set_future c future Cancelled,
                Inl (mcp_error
                  (''Request cancelled, possibly due to connection loss: '' @ meth) (- 32004)))))"

subsection \<open>Teardown\<close>

text \<open>
  What the environment does during a teardown: whether writing the notification fails
  with a connection error, and how the process reacts to \<open>terminate()\<close>: it exits
  within the grace period, it has to be killed, the \<open>kill()\<close> itself raises, or
  \<open>terminate()\<close> raises.
\<close>

datatype terminate_outcome = Terminated | Killed | KillRaises | TerminateRaises

record disconnect_env =
  write_fails :: bool
  on_terminate :: terminate_outcome

text \<open>\<open>self.process and self.process.stdin and not self.process.stdin.is_closing()\<close>.\<close>

definition stdin_open :: "client \<Rightarrow> bool" where
  "stdin_open c = (case process c of None \<Rightarrow> False | Some p \<Rightarrow> \<not> stdin_closing p)"

text \<open>A failed write closes the stdin transport.\<close>

definition stdin_lost :: "client \<Rightarrow> client" where
  "stdin_lost c =
     c\<lparr>process := (case process c of None \<Rightarrow> None | Some p \<Rightarrow> Some (p\<lparr>stdin_closing := True\<rparr>))\<rparr>"

text \<open>A task that is cancelled and gathered is done afterwards.\<close>

definition finish_task :: "task_state option \<Rightarrow> task_state option" where
  "finish_task t = (case t of None \<Rightarrow> None | Some s \<Rightarrow> Some TaskDone)"

text \<open>
  \<open>_disconnect_async\<close> from the cancellation of the reader tasks on. An exception of
  \<open>kill()\<close> is raised inside the handler of the timeout, so it leaves the coroutine
  before the handle is cleared.
\<close>

definition disconnect_async_teardown :: "disconnect_env \<Rightarrow> client \<Rightarrow> client \<times> py_exc option" where
  "disconnect_async_teardown env c =
     (let c1 = c\<lparr>reader_task := finish_task (reader_task c),
                 stderr_task := finish_task (stderr_task c)\<rparr>
      in case process c1 of
           None \<Rightarrow> (c1\<lparr>is_connected := False\<rparr>, None)
         | Some p \<Rightarrow>
             (let c2 = c1\<lparr>process := Some (p\<lparr>stdin_closing := True\<rparr>)\<rparr>
              in if returncode p = None \<and> on_terminate env = KillRaises
                 then (c2, Some ProcessLookupError)
                 else (c2\<lparr>process := None, is_connected := False\<rparr>, None)))"

text \<open>
  \<open>_disconnect_async\<close> and \<open>_send_notification\<close> call each other: a notification whose
  write fails disconnects, and a disconnect of a connected client first sends the
  \<open>exit\<close> notification (whatever that raises is logged and dropped).
\<close>

function disconnect_async :: "disconnect_env \<Rightarrow> client \<Rightarrow> client \<times> py_exc option"
  and send_notification :: "disconnect_env \<Rightarrow> string \<Rightarrow> client \<Rightarrow> client \<times> py_exc option"
where
  "disconnect_async env c =
     (let c1 = c\<lparr>keep_alive := False\<rparr>;
          c2 = (if is_connected c1 \<and> stdin_open c1
                then fst (send_notification env ''exit'' c1) else c1)
      in disconnect_async_teardown env c2)"
| "send_notification env meth c =
     (if \<not> stdin_open c then (c, None)
      else if write_fails env then disconnect_async env (stdin_lost c)
      else (c, None))"
  by pat_completeness auto
termination
  by (relation "measure (\<lambda>x. case x of
          Inl (env, c) \<Rightarrow> (if stdin_open c then 3 else 1)
        | Inr (env, meth, c) \<Rightarrow> (if stdin_open c then 2 else 0))")
     (auto simp: stdin_open_def stdin_lost_def split: option.splits)

text \<open>
  \<open>disconnect\<close>: the teardown runs on the client's loop when that is running, and any
  exception of it is logged; otherwise a live process is killed directly and the handle
  is kept. The 10 second bound on the wait for the coroutine is outside the model: the
  coroutine is taken as run to its end.
\<close>

definition disconnect :: "disconnect_env \<Rightarrow> client \<Rightarrow> client \<times> py_exc option" where
  "disconnect env c =
     (let c1 = (case loop_running c of
                  Some True \<Rightarrow> fst (disconnect_async env c)
                | _ \<Rightarrow> c)
      in (c1\<lparr>is_connected := False\<rparr>, None))"

subsection \<open>Sending a request\<close>

text \<open>
  The first part of \<open>_send_request_and_wait_async\<close>: the connection check, the fresh
  id, the new future stored under it, and the write. It returns the id and the future
  to wait on, or the \<open>MCPError\<close> it raises.
\<close>

definition send_request_and_wait_async_send ::
  "runtime \<Rightarrow> disconnect_env \<Rightarrow> client \<Rightarrow> string \<Rightarrow> client \<times> (py_exc + string \<times> nat)" where
  "send_request_and_wait_async_send rt env c meth =
     (if \<not> is_connected c \<or> \<not> stdin_open c
      then (c, Inl (mcp_error ''Not connected to server or stdin closed'' (- 32001)))
      else
        (let (c1, request_id) = get_next_request_id c;
             (c2, future) = create_future c1;
             c3 = c2\<lparr>pending_requests := (pending_requests c2)(request_id \<mapsto> future)\<rparr>
         in if write_fails env then
              (let c4 = c3\<lparr>pending_requests := (pending_requests c3)(request_id := None)\<rparr>;
                   c5 = (if fut_done (futures c4 future) then c4
                         else set_future c4 future Cancelled);
                   (c6, raised) = disconnect_async env (stdin_lost c5)
               in case raised of
                    Some e \<Rightarrow> (c6, Inl e)
                  | None \<Rightarrow>
                      (c6, Inl (mcp_error
                         (''Connection error: '' @ exc_str rt ConnectionError) (- 32002))))
            else (c3, Inr (request_id, future))))"

subsection \<open>The primary pump: \<open>_stdout_reader\<close>\<close>

text \<open>
  One \<open>readline\<close> of the loop times out after a second, raises, or returns bytes:
  the next line with its line feed, the rest of the stream when that ends without one,
  and nothing at the end of the stream. A line whose content is longer than the
  stream's limit (the process is started with asyncio's default, 64 KiB) is not
  returned: \<open>readline\<close> raises \<open>ValueError\<close>. Any exception of the read other than
  the timeout, the task's cancellation included, is caught outside the loop. The pump
  runs over the reads that happen; when they are used up it is still running. The
  result is the client and whether the pump has finished.
\<close>

datatype read_event = ReadTimeout | ReadLine string | ReadRaises

definition stream_limit :: nat where
  "stream_limit = 65536"

definition line_content :: "string \<Rightarrow> string" where
  "line_content line = (if line \<noteq> [] \<and> last line = CHR 0x0A then butlast line else line)"

definition reader_finished :: "client \<Rightarrow> client \<times> bool" where
  "reader_finished c = (c\<lparr>reader_task := finish_task (reader_task c)\<rparr>, True)"

fun stdout_reader :: "runtime \<Rightarrow> client \<Rightarrow> read_event list \<Rightarrow> client \<times> bool" where
  "stdout_reader rt c [] = (c, False)"
| "stdout_reader rt c (ev # evs) =
     (if \<not> (keep_alive c \<and> process c \<noteq> None) then reader_finished c
      else
        (case ev of
           ReadTimeout \<Rightarrow> stdout_reader rt c evs
         | ReadRaises \<Rightarrow> reader_finished c
         | ReadLine line \<Rightarrow>
             if stream_limit < length (line_content line) then reader_finished c
             else if line = [] then reader_finished c
             else
               (case bytes_decode rt line of
                  None \<Rightarrow> reader_finished c
                | Some text \<Rightarrow>
                    (let line_str = str_strip rt text in
                     if line_str = [] then stdout_reader rt c evs
                     else
                       (case json_loads rt line_str of
                          None \<Rightarrow> stdout_reader rt c evs
                        | Some response \<Rightarrow>
                            stdout_reader rt (fst (handle_response rt c response)) evs)))))"

subsection \<open>The invariant of the pending-call table\<close>

text \<open>
  What every state reached from \<open>__init__\<close> through the operations above satisfies
  (\<open>wf_init_client\<close>, \<open>wf_send\<close>, \<open>wf_await\<close>, \<open>wf_handle_response\<close>,
  \<open>wf_stdout_reader\<close>, \<open>wf_disconnect\<close> below): the counter is not negative, every
  key of the table is the decimal text of a counter value already issued, every stored
  future has been created, and no two keys hold the same future (each registration
  creates its own).
\<close>

definition wf_client :: "client \<Rightarrow> bool" where
  "wf_client c =
     (0 \<le> request_id_counter c \<and>
      (\<forall>k r. pending_requests c k = Some r \<longrightarrow>
          r < next_future c \<and> (\<exists>n. 0 < n \<and> n \<le> request_id_counter c \<and> k = str_int n)) \<and>
      (\<forall>k k' r. pending_requests c k = Some r \<longrightarrow> pending_requests c k' = Some r \<longrightarrow> k = k'))"

subsection \<open>The synchronous facade: \<open>is_healthy\<close>, \<open>_send_request_and_wait\<close>, \<open>call_tool\<close>\<close>

definition task_running :: "task_state option \<Rightarrow> bool" where
  "task_running t = (case t of Some TaskRunning \<Rightarrow> True | _ \<Rightarrow> False)"

definition is_healthy :: "client \<Rightarrow> bool" where
  "is_healthy c =
     (is_connected c \<and>
      (case process c of None \<Rightarrow> False | Some p \<Rightarrow> returncode p = None) \<and>
      task_running (reader_task c) \<and> task_running (stderr_task c))"

text \<open>
  \<open>_send_request_and_wait\<close>. \<open>outcome\<close> is what \<open>future_req.result(...)\<close> gives: the
  value the coroutine returned, or the exception it raised or that the wait itself raised.
  Only an \<open>MCPError\<close> leaves the method.
\<close>

definition send_request_and_wait ::
  "runtime \<Rightarrow> client \<Rightarrow> string \<Rightarrow> py_exc + json \<Rightarrow> py_exc + json" where
  "send_request_and_wait rt c meth outcome =
     (if loop_running c \<noteq> Some True
      then Inl (mcp_error ''Client background loop not running'' (- 32001))
      else
        (case outcome of
           Inr v \<Rightarrow> Inr v
         | Inl e \<Rightarrow>
             (case e of
                MCPError d \<Rightarrow> Inl (MCPError d)
              | _ \<Rightarrow>
                  Inl (mcp_error (''Failed to execute '' @ meth @ '': '' @ exc_str rt e)
                         (- 32000)))))"

text \<open>
  Python's operators on JSON values, as far as \<open>call_tool\<close> uses them: truth value,
  \<open>k in v\<close> for a string \<open>k\<close> (key of a dict, element of a list, substring of a
  string), \<open>v[k]\<close> for a string \<open>k\<close>, \<open>v[0]\<close>, and \<open>json.loads(v)\<close>, which wants a
  string.
\<close>

definition py_truthy :: "json \<Rightarrow> bool" where
  "py_truthy v =
     (case v of
        JNull \<Rightarrow> False
      | JBool b \<Rightarrow> b
      | JInt n \<Rightarrow> n \<noteq> 0
      | JStr s \<Rightarrow> s \<noteq> []
      | JArr xs \<Rightarrow> xs \<noteq> []
      | JObj d \<Rightarrow> d \<noteq> [])"

fun is_substring :: "string \<Rightarrow> string \<Rightarrow> bool" where
  "is_substring s [] = (s = [])"
| "is_substring s (ch # rest) = (take (length s) (ch # rest) = s \<or> is_substring s rest)"

definition py_in :: "string \<Rightarrow> json \<Rightarrow> py_exc + bool" where
  "py_in k v =
     (case v of
        JObj d \<Rightarrow> Inr (dict_has d k)
      | JArr xs \<Rightarrow> Inr (JStr k \<in> set xs)
      | JStr s \<Rightarrow> Inr (is_substring k s)
      | _ \<Rightarrow> Inl TypeError)"

definition py_getitem :: "json \<Rightarrow> string \<Rightarrow> py_exc + json" where
  "py_getitem v k =
     (case v of
        JObj d \<Rightarrow> (case map_of d k of Some x \<Rightarrow> Inr x | None \<Rightarrow> Inl KeyError)
      | _ \<Rightarrow> Inl TypeError)"

definition py_getitem_0 :: "json \<Rightarrow> py_exc + json" where
  "py_getitem_0 v =
     (case v of
        JArr xs \<Rightarrow> (case xs of [] \<Rightarrow> Inl IndexError | x # rest \<Rightarrow> Inr x)
      | JStr s \<Rightarrow> (case s of [] \<Rightarrow> Inl IndexError | ch # rest \<Rightarrow> Inr (JStr [ch]))
      | JObj d \<Rightarrow> Inl KeyError
      | _ \<Rightarrow> Inl TypeError)"

definition is_list :: "json \<Rightarrow> bool" where
  "is_list v = (case v of JArr xs \<Rightarrow> True | _ \<Rightarrow> False)"

definition py_json_loads :: "runtime \<Rightarrow> json \<Rightarrow> py_exc + json" where
  "py_json_loads rt v =
     (case v of
        JStr s \<Rightarrow> (case json_loads rt s of Some j \<Rightarrow> Inr j | None \<Rightarrow> Inl JSONDecodeError)
      | _ \<Rightarrow> Inl TypeError)"

definition error_dict :: "json \<Rightarrow> json" where
  "error_dict msg = JObj [(''error'', msg)]"

text \<open>
  The \<open>try\<close> body of \<open>call_tool\<close> after the request has returned \<open>result\<close>: the
  conjunction is evaluated left to right and stops at the first false conjunct; an
  operator that raises ends it with that exception.
\<close>

definition call_tool_body :: "runtime \<Rightarrow> json \<Rightarrow> py_exc + json" where
  "call_tool_body rt result =
     (if \<not> py_truthy result then Inr (error_dict (JStr ''Malformed tool response''))
      else
        (case py_in ''content'' result of
           Inl e \<Rightarrow> Inl e
         | Inr False \<Rightarrow> Inr (error_dict (JStr ''Malformed tool response''))
         | Inr True \<Rightarrow>
             (case py_getitem result ''content'' of
                Inl e \<Rightarrow> Inl e
              | Inr content \<Rightarrow>
                  if \<not> py_truthy content \<or> \<not> is_list content
                  then Inr (error_dict (JStr ''Malformed tool response''))
                  else
                    (case py_getitem_0 content of
                       Inl e \<Rightarrow> Inl e
                     | Inr item \<Rightarrow>
                         (case py_in ''text'' item of
                            Inl e \<Rightarrow> Inl e
                          | Inr False \<Rightarrow> Inr (error_dict (JStr ''Malformed tool response''))
                          | Inr True \<Rightarrow>
                              (case py_getitem item ''text'' of
                                 Inl e \<Rightarrow> Inl e
                               | Inr text \<Rightarrow> py_json_loads rt text))))))"

text \<open>
  The expression the \<open>JSONDecodeError\<close> handler formats into its log line:
  \<open>result.get('content',[{}])[0].get('text','') if result else 'N/A'\<close>. An exception
  raised here is raised inside a handler and leaves \<open>call_tool\<close>.
\<close>

definition decode_error_raw_text :: "json \<Rightarrow> py_exc + json" where
  "decode_error_raw_text result =
     (if \<not> py_truthy result then Inr (JStr ''N/A'')
      else
        (case result of
           JObj d \<Rightarrow>
             (case py_getitem_0 (case map_of d ''content'' of None \<Rightarrow> JArr [JObj []] | Some x \<Rightarrow> x) of
                Inl e \<Rightarrow> Inl e
              | Inr item \<Rightarrow>
                  (case item of
                     JObj i \<Rightarrow> Inr (case map_of i ''text'' of None \<Rightarrow> JStr [] | Some t \<Rightarrow> t)
                   | _ \<Rightarrow> Inl AttributeError))
         | _ \<Rightarrow> Inl AttributeError))"

text \<open>
  The \<open>except\<close> clauses of \<open>call_tool\<close>, in their order. \<open>result\<close> is bound only when
  the request has returned.
\<close>

definition call_tool_except :: "runtime \<Rightarrow> json option \<Rightarrow> py_exc \<Rightarrow> py_exc + json" where
  "call_tool_except rt result e =
     (case e of
        MCPError details \<Rightarrow>
          Inr (error_dict
                 (case map_of details ''message'' of
                    Some m \<Rightarrow> m
                  | None \<Rightarrow> JStr ''Unknown MCP error''))
      | JSONDecodeError \<Rightarrow>
          (case result of
             None \<Rightarrow> Inl UnboundLocalError
           | Some r \<Rightarrow>
               (case decode_error_raw_text r of
                  Inl raised \<Rightarrow> Inl raised
                | Inr raw \<Rightarrow>
                    Inr (error_dict
                           (JStr (''Tool response JSON decode error: '' @ exc_str rt e)))))
      | _ \<Rightarrow> Inr (error_dict (JStr (exc_str rt e))))"

text \<open>
  \<open>call_tool\<close>: \<open>Inr\<close> is the value returned, \<open>Inl\<close> an exception that reaches the
  caller. The tool's arguments only travel inside the request, whose fate is
  \<open>outcome\<close>.
\<close>

definition call_tool :: "runtime \<Rightarrow> client \<Rightarrow> string \<Rightarrow> py_exc + json \<Rightarrow> py_exc + json" where
  "call_tool rt c tool_name outcome =
     (if \<not> is_healthy c
      then Inr (error_dict
                  (JStr (''MCP client not healthy. Cannot call tool: '' @ tool_name @ ''.'')))
      else
        (case send_request_and_wait rt c ''tools/call'' outcome of
           Inl e \<Rightarrow> call_tool_except rt None e
         | Inr result \<Rightarrow>
             (case call_tool_body rt result of
                Inr v \<Rightarrow> Inr v
              | Inl e \<Rightarrow> call_tool_except rt (Some result) e)))"

text \<open>
  The text of the first content item of a tool result, when the result has the shape
  \<open>{"content": [{"text": "...", ...}, ...], ...}\<close>.
\<close>

definition first_content_text :: "json \<Rightarrow> string option" where
  "first_content_text result =
     (case result of
        JObj d \<Rightarrow>
          (case map_of d ''content'' of
             Some (JArr (JObj item # rest)) \<Rightarrow>
               (case map_of item ''text'' of Some (JStr s) \<Rightarrow> Some s | _ \<Rightarrow> None)
           | _ \<Rightarrow> None)
      | _ \<Rightarrow> None)"

definition has_error_key :: "json \<Rightarrow> bool" where
  "has_error_key v = (case v of JObj d \<Rightarrow> dict_has d ''error'' | _ \<Rightarrow> False)"

section \<open>The server: \<open>mcp_bakery_server.py\<close>\<close>

text \<open>
  \<open>send_response\<close>: the message it prints, before \<open>json.dumps\<close>. The keyword
  arguments default to \<open>None\<close>, and a field is added only when its argument is not
  \<open>None\<close>.
\<close>

definition send_response :: "json \<Rightarrow> json \<Rightarrow> json \<Rightarrow> json" where
  "send_response response_id result error =
     JObj ([(''jsonrpc'', JStr ''2.0''), (''id'', response_id)]
           @ (if result \<noteq> JNull then [(''result'', result)] else [])
           @ (if error \<noteq> JNull then [(''error'', error)] else []))"

text \<open>\<open>create_error_response\<close>; no call passes \<open>data\<close>.\<close>

definition create_error_response :: "int \<Rightarrow> string \<Rightarrow> json" where
  "create_error_response code message = JObj [(''code'', JInt code), (''message'', JStr message)]"

definition format_tool_call_response_content :: "runtime \<Rightarrow> json \<Rightarrow> json" where
  "format_tool_call_response_content rt data_payload =
     JObj [(''content'', JArr [JObj [(''type'', JStr ''text''),
                                      (''text'', JStr (json_dumps rt data_payload))]])]"

definition format_resource_read_response_content :: "runtime \<Rightarrow> json \<Rightarrow> json" where
  "format_resource_read_response_content rt data_payload =
     JObj [(''contents'', JArr [JObj [(''type'', JStr ''text''),
                                       (''text'', JStr (json_dumps rt data_payload))]])]"

text \<open>
  The keys of \<open>TOOLS\<close> and \<open>RESOURCES\<close>. What a tool computes (the catalogue queries and
  the language-model call) and what a resource returns are parameters: the value, or the
  exception raised.
\<close>

definition tool_names :: "string list" where
  "tool_names = [''get_popular_products'', ''get_product_recommendations'',
                 ''search_products'', ''get_product_details'', ''assistant_chat'']"

definition resource_uris :: "string list" where
  "resource_uris = [''bakery://products/all'', ''bakery://products/categories'']"

record server_env =
  run_tool :: "string \<Rightarrow> json \<Rightarrow> py_exc + json"
  read_resource :: "string \<Rightarrow> py_exc + json"

text \<open>
  What \<open>handle_request\<close> does with one request: it prints one message, prints nothing,
  exits the process, or raises.
\<close>

datatype server_step = Sent json | Silent | Exited | Raised py_exc

definition initialize_result :: json where
  "initialize_result =
     JObj [(''capabilities'',
            JObj [(''experimental'',
                   JObj [(''bakeryTools'', JBool True), (''assistantChat'', JBool True)])])]"

definition handle_tools_call :: "runtime \<Rightarrow> server_env \<Rightarrow> json \<Rightarrow> json \<Rightarrow> server_step" where
  "handle_tools_call rt env req_id params =
     (case params of
        JObj p \<Rightarrow>
          (let tool_name = dict_get p ''name'';
               tool_arguments = (case map_of p ''arguments'' of None \<Rightarrow> JObj [] | Some a \<Rightarrow> a);
               not_found = Sent (send_response req_id JNull
                 (create_error_response (- 32601) (''Tool not found: '' @ py_str rt tool_name)))
           in case tool_name of
                JStr name \<Rightarrow>
                  if name \<in> set tool_names then
                    (case run_tool env name tool_arguments of
                       Inr tool_result_data \<Rightarrow>
                         Sent (send_response req_id
                                 (format_tool_call_response_content rt tool_result_data) JNull)
                     | Inl e \<Rightarrow>
                         Sent (send_response req_id JNull
                                 (create_error_response (- 32000)
                                    (''Server error executing tool '' @ name @ '': ''
                                       @ exc_str rt e))))
                  else not_found
              | JArr xs \<Rightarrow> Raised TypeError
              | JObj kvs \<Rightarrow> Raised TypeError
              | _ \<Rightarrow> not_found)
      | _ \<Rightarrow> Raised AttributeError)"

definition handle_resources_read :: "runtime \<Rightarrow> server_env \<Rightarrow> json \<Rightarrow> json \<Rightarrow> server_step" where
  "handle_resources_read rt env req_id params =
     (case params of
        JObj p \<Rightarrow>
          (let uri = dict_get p ''uri'';
               not_found = Sent (send_response req_id JNull
                 (create_error_response (- 32601) (''Resource not found: '' @ py_str rt uri)))
           in case uri of
                JStr u \<Rightarrow>
                  if u \<in> set resource_uris then
                    (case read_resource env u of
                       Inr resource_data \<Rightarrow>
                         Sent (send_response req_id
                                 (format_resource_read_response_content rt resource_data) JNull)
                     | Inl e \<Rightarrow>
                         Sent (send_response req_id JNull
                                 (create_error_response (- 32000)
                                    (''Server error reading resource '' @ u @ '': ''
                                       @ exc_str rt e))))
                  else not_found
              | JArr xs \<Rightarrow> Raised TypeError
              | JObj kvs \<Rightarrow> Raised TypeError
              | _ \<Rightarrow> not_found)
      | _ \<Rightarrow> Raised AttributeError)"

definition handle_request :: "runtime \<Rightarrow> server_env \<Rightarrow> json \<Rightarrow> server_step" where
  "handle_request rt env request_obj =
     (case request_obj of
        JObj d \<Rightarrow>
          (let req_id = dict_get d ''id'';
               meth = dict_get d ''method'';
               params = (case map_of d ''params'' of None \<Rightarrow> JObj [] | Some p \<Rightarrow> p)
           in if \<not> py_truthy meth then
                (if py_truthy req_id
                 then Sent (send_response req_id JNull
                        (create_error_response (- 32600) ''Invalid Request: Missing method''))
                 else Silent)
              else if meth = JStr ''initialize'' then
                Sent (send_response req_id initialize_result JNull)
              else if meth = JStr ''initialized'' then Silent
              else if meth = JStr ''tools/call'' then handle_tools_call rt env req_id params
              else if meth = JStr ''resources/read'' then
                handle_resources_read rt env req_id params
              else if meth = JStr ''shutdown'' then
                (if py_truthy req_id then Sent (send_response req_id JNull JNull) else Silent)
              else if meth = JStr ''exit'' then Exited
              else
                (if py_truthy req_id
                 then Sent (send_response req_id JNull
                        (create_error_response (- 32601)
                           (''Method not found: '' @ py_str rt meth)))
                 else Silent))
      | _ \<Rightarrow> Raised AttributeError)"

definition has_result :: "json \<Rightarrow> bool" where
  "has_result m = (case m of JObj d \<Rightarrow> dict_has d ''result'' | _ \<Rightarrow> False)"

definition has_error :: "json \<Rightarrow> bool" where
  "has_error m = (case m of JObj d \<Rightarrow> dict_has d ''error'' | _ \<Rightarrow> False)"

section \<open>Concrete runs\<close>

text \<open>
  A runtime for the concrete runs below. It agrees with Python on what those runs use:
  ASCII bytes decode to themselves and the byte \<open>0xFF\<close> is not UTF-8, \<open>strip\<close>
  removes the spaces and line feeds at both ends, and \<open>json.loads\<close> is given on the
  texts listed (anything else counts as not JSON). No run takes the \<open>str\<close> of a list
  or dict, serialises a value, or reads the text of an exception, so those three fields
  are placeholders.
\<close>

definition is_blank :: "char \<Rightarrow> bool" where
  "is_blank ch = (ch = CHR '' '' \<or> ch = CHR 0x0A)"

definition sample_loads :: "string \<Rightarrow> json option" where
  \<open>sample_loads = map_of
     [(''{"id": "1", "result": true}'', JObj [(''id'', JStr ''1''), (''result'', JBool True)]),
      (''{"id": 2, "result": false}'', JObj [(''id'', JInt 2), (''result'', JBool False)]),
      (''[1]'', JArr [JInt 1])]\<close>

definition sample_runtime :: runtime where
  "sample_runtime =
     \<lparr> container_repr = (\<lambda>v. ''[]''),
       bytes_decode = (\<lambda>bs. if list_all (\<lambda>b. (of_char b :: nat) < 128) bs then Some bs else None),
       str_strip = (\<lambda>s. rev (dropWhile is_blank (rev (dropWhile is_blank s)))),
       json_loads = sample_loads,
       json_dumps = (\<lambda>v. ''null''),
       exc_str = (\<lambda>e. ''error'') \<rparr>"

text \<open>A connected client with two requests in flight, ids 1 and 2.\<close>

definition busy_client :: client where
  "busy_client =
     \<lparr> process = Some \<lparr> returncode = None, stdin_closing = False \<rparr>,
       is_connected = True, request_id_counter = 2,
       pending_requests = [''1'' \<mapsto> 0, ''2'' \<mapsto> 1],
       reader_task = Some TaskRunning, stderr_task = Some TaskRunning,
       keep_alive = True, loop_running = Some True,
       futures = (\<lambda>r. Pending), next_future = 2 \<rparr>"

text \<open>
  An environment in which nothing fails, and one in which \<open>kill()\<close> raises; a client
  whose loop has stopped while its process is still alive.
\<close>

definition calm_env :: disconnect_env where
  "calm_env = \<lparr> write_fails = False, on_terminate = Terminated \<rparr>"



text \<open>
  Two response lines as the server prints them, a \<open>shutdown\<close> request, and a tool
  result whose text is the JSON list \<open>[1]\<close>.
\<close>

definition line_1 :: string where
  \<open>line_1 = ''{"id": "1", "result": true}'' @ [CHR 0x0A]\<close>

definition line_2 :: string where
  \<open>line_2 = ''{"id": 2, "result": false}'' @ [CHR 0x0A]\<close>

definition shutdown_request :: json where
  "shutdown_request =
     JObj [(''jsonrpc'', JStr ''2.0''), (''id'', JInt 1), (''method'', JStr ''shutdown'')]"

definition tool_reply :: json where
  "tool_reply = JObj [(''content'', JArr [JObj [(''type'', JStr ''text''), (''text'', JStr ''[1]'')]])]"

section \<open>Properties\<close>

declare str_nat.simps [simp del]
declare disconnect_async.simps [simp del] send_notification.simps [simp del]
declare stdout_reader.simps(2) [simp del]

subsection \<open>Decimal text is injective\<close>

lemma digit_val_digit_char: "d < 10 \<Longrightarrow> digit_val (digit_char d) = d"
proof -
  assume "d < 10"
  then have "d = 0 \<or> d = 1 \<or> d = 2 \<or> d = 3 \<or> d = 4 \<or> d = 5 \<or> d = 6 \<or> d = 7 \<or> d = 8 \<or> d = 9"
    by arith
  then show ?thesis by (auto simp: digit_char_def digit_val_def)
qed

lemma digit_char_not_minus: "d < 10 \<Longrightarrow> digit_char d \<noteq> CHR ''-''"
proof -
  assume "d < 10"
  then have "d = 0 \<or> d = 1 \<or> d = 2 \<or> d = 3 \<or> d = 4 \<or> d = 5 \<or> d = 6 \<or> d = 7 \<or> d = 8 \<or> d = 9"
    by arith
  then show ?thesis by (auto simp: digit_char_def)
qed

lemma str_nat_nonempty: "str_nat n \<noteq> []"
  by (subst str_nat.simps) simp

lemma str_nat_hd: "hd (str_nat n) \<noteq> CHR ''-''"
proof (induction n rule: str_nat.induct)
  case (1 n)
  show ?case
  proof (cases "n < 10")
    case True
    then show ?thesis by (simp add: str_nat.simps [of n] digit_char_not_minus)
  next
    case False
    with "1.IH" show ?thesis
      by (simp add: str_nat.simps [of n] str_nat_nonempty)
  qed
qed

lemma str_nat_inj: "str_nat n = str_nat m \<Longrightarrow> n = m"
proof (induction n arbitrary: m rule: str_nat.induct)
  case (1 n)
  show ?case
  proof (cases "n < 10")
    case True
    show ?thesis
    proof (cases "m < 10")
      case m: True
      from "1.prems" True m have "digit_char n = digit_char m"
        by (simp add: str_nat.simps [of n] str_nat.simps [of m])
      then have "digit_val (digit_char n) = digit_val (digit_char m)" by simp
      with True m show ?thesis by (simp add: digit_val_digit_char)
    next
      case m: False
      from "1.prems" True m have "[digit_char n] = str_nat (m div 10) @ [digit_char (m mod 10)]"
        by (simp add: str_nat.simps [of n] str_nat.simps [of m])
      then have "str_nat (m div 10) = []" by simp
      then show ?thesis by (simp add: str_nat_nonempty)
    qed
  next
    case False
    show ?thesis
    proof (cases "m < 10")
      case m: True
      from "1.prems" False m have "str_nat (n div 10) @ [digit_char (n mod 10)] = [digit_char m]"
        by (simp add: str_nat.simps [of n] str_nat.simps [of m])
      then have "str_nat (n div 10) = []" by simp
      then show ?thesis by (simp add: str_nat_nonempty)
    next
      case m: False
      from "1.prems" False m
      have eq: "str_nat (n div 10) @ [digit_char (n mod 10)] = str_nat (m div 10) @ [digit_char (m mod 10)]"
        by (simp add: str_nat.simps [of n] str_nat.simps [of m])
      then have a: "str_nat (n div 10) = str_nat (m div 10)" and b: "digit_char (n mod 10) = digit_char (m mod 10)"
        by simp_all
      from "1.IH" [OF False a] have d: "n div 10 = m div 10" .
      from b have "digit_val (digit_char (n mod 10)) = digit_val (digit_char (m mod 10))" by simp
      then have "n mod 10 = m mod 10" by (simp add: digit_val_digit_char)
      with d show ?thesis by (metis div_mult_mod_eq)
    qed
  qed
qed

lemma str_int_inj: "str_int i = str_int j \<Longrightarrow> i = j"
proof -
  assume eq: "str_int i = str_int j"
  have neg: "hd (str_int k) = CHR ''-'' \<longleftrightarrow> k < 0" for k
    using str_nat_hd [of "nat k"] by (simp add: str_int_def)
  from eq have "i < 0 \<longleftrightarrow> j < 0" using neg [of i] neg [of j] by simp
  with eq show ?thesis
    by (auto simp: str_int_def dest!: str_nat_inj split: if_splits)
qed

lemma stdin_open_keep_alive [simp]: "stdin_open (c\<lparr>keep_alive := b\<rparr>) = stdin_open c"
  by (simp add: stdin_open_def)

lemma stdin_open_lost [simp]: "\<not> stdin_open (stdin_lost c)"
  by (simp add: stdin_open_def stdin_lost_def split: option.splits)

lemma disconnect_async_closed:
  "\<not> stdin_open c \<Longrightarrow>
   disconnect_async env c = disconnect_async_teardown env (c\<lparr>keep_alive := False\<rparr>)"
  by (simp add: disconnect_async.simps [of env c] Let_def)

lemma disconnect_async_cases:
  "disconnect_async env c =
     (if is_connected c \<and> stdin_open c \<and> write_fails env then
        disconnect_async_teardown env
          (fst (disconnect_async_teardown env
                  ((stdin_lost (c\<lparr>keep_alive := False\<rparr>))\<lparr>keep_alive := False\<rparr>)))
      else disconnect_async_teardown env (c\<lparr>keep_alive := False\<rparr>))"
  apply (subst disconnect_async.simps)
  apply (simp add: Let_def send_notification.simps disconnect_async_closed)
  done

lemma teardown_frame:
  "pending_requests (fst (disconnect_async_teardown env c)) = pending_requests c \<and>
   futures (fst (disconnect_async_teardown env c)) = futures c \<and>
   request_id_counter (fst (disconnect_async_teardown env c)) = request_id_counter c \<and>
   next_future (fst (disconnect_async_teardown env c)) = next_future c \<and>
   loop_running (fst (disconnect_async_teardown env c)) = loop_running c \<and>
   keep_alive (fst (disconnect_async_teardown env c)) = keep_alive c"
  by (simp add: disconnect_async_teardown_def Let_def split: option.splits)

lemma disconnect_async_frame:
  "pending_requests (fst (disconnect_async env c)) = pending_requests c \<and>
   futures (fst (disconnect_async env c)) = futures c \<and>
   request_id_counter (fst (disconnect_async env c)) = request_id_counter c \<and>
   next_future (fst (disconnect_async env c)) = next_future c \<and>
   loop_running (fst (disconnect_async env c)) = loop_running c \<and>
   keep_alive (fst (disconnect_async env c)) = False"
  by (simp add: disconnect_async_cases teardown_frame stdin_lost_def)

lemma disconnect_frame:
  "pending_requests (fst (disconnect env c)) = pending_requests c \<and>
   futures (fst (disconnect env c)) = futures c \<and>
   request_id_counter (fst (disconnect env c)) = request_id_counter c \<and>
   next_future (fst (disconnect env c)) = next_future c \<and>
   loop_running (fst (disconnect env c)) = loop_running c"
  by (simp add: disconnect_def Let_def disconnect_async_frame split: option.splits bool.splits)

lemma finish_task_idem [simp]: "finish_task (finish_task t) = finish_task t"
  by (simp add: finish_task_def split: option.splits)




lemma teardown_clears:
  "on_terminate env \<noteq> KillRaises \<Longrightarrow>
   process (fst (disconnect_async_teardown env c)) = None \<and>
   \<not> is_connected (fst (disconnect_async_teardown env c)) \<and>
   snd (disconnect_async_teardown env c) = None"
  by (simp add: disconnect_async_teardown_def Let_def split: option.splits)

lemma disconnect_async_clears:
  "on_terminate env \<noteq> KillRaises \<Longrightarrow>
   process (fst (disconnect_async env c)) = None \<and>
   \<not> is_connected (fst (disconnect_async env c)) \<and>
   snd (disconnect_async env c) = None"
  by (simp add: disconnect_async_cases teardown_clears)

subsection \<open>The table and the invariant\<close>

lemma pop_absent:
  "pending_requests c k = None \<Longrightarrow> c\<lparr>pending_requests := (pending_requests c)(k := None)\<rparr> = c"
  by (simp add: fun_upd_idem)

lemma wf_init_client: "wf_client init_client"
  by (simp add: wf_client_def init_client_def)

lemma wf_fresh_id:
  assumes "wf_client c"
  shows "pending_requests c (str_int (request_id_counter c + 1)) = None"
proof (rule ccontr)
  assume "pending_requests c (str_int (request_id_counter c + 1)) \<noteq> None"
  then obtain r where "pending_requests c (str_int (request_id_counter c + 1)) = Some r" by auto
  with assms obtain n where "n \<le> request_id_counter c" "str_int (request_id_counter c + 1) = str_int n"
    unfolding wf_client_def by blast
  then show False by (auto dest: str_int_inj)
qed

lemma handle_response_matched:
  assumes "dict_get d ''id'' = rid" "rid \<noteq> JNull"
    and "pending_requests c (py_str rt rid) = Some r" "futures c r = Pending"
  shows "handle_response rt c (JObj d) =
     (case map_of d ''result'' of
        Some v \<Rightarrow>
          (c\<lparr>pending_requests := (pending_requests c)(py_str rt rid := None),
             futures := (futures c)(r := Result v)\<rparr>, None)
      | None \<Rightarrow>
          (case map_of d ''error'' of
             Some (JObj e) \<Rightarrow>
               (c\<lparr>pending_requests := (pending_requests c)(py_str rt rid := None),
                  futures := (futures c)(r := Exception (MCPError e))\<rparr>, None)
           | Some other \<Rightarrow>
               (c\<lparr>pending_requests := (pending_requests c)(py_str rt rid := None)\<rparr>,
                Some AttributeError)
           | None \<Rightarrow>
               (c\<lparr>pending_requests := (pending_requests c)(py_str rt rid := None),
                  futures := (futures c)(r := Exception (MCPError invalid_response_details))\<rparr>,
                None)))"
  using assms
  by (simp add: handle_response_def Let_def fut_done_def set_future_def new_MCPError_def
      split: option.splits json.splits)

lemma str_int_1: "str_int 1 = ''1''"
  by (simp add: str_int_def str_nat.simps digit_char_def)

lemma str_int_2: "str_int 2 = ''2''"
  by (simp add: str_int_def str_nat.simps digit_char_def)

lemma wf_busy_client: "wf_client busy_client"
proof -
  have a: "\<exists>n. 0 < n \<and> n \<le> (2::int) \<and> ''1'' = str_int n"
    by (rule exI [of _ 1]) (simp add: str_int_1)
  have b: "\<exists>n. 0 < n \<and> n \<le> (2::int) \<and> ''2'' = str_int n"
    by (rule exI [of _ 2]) (simp add: str_int_2)
  show ?thesis
    unfolding wf_client_def busy_client_def using a b by (auto split: if_splits)
qed

lemma wf_handle_response:
  "wf_client c \<Longrightarrow> wf_client (fst (handle_response rt c response))"
  unfolding wf_client_def handle_response_def
  by (auto simp: Let_def set_future_def split: json.splits option.splits sum.splits if_splits)

lemma wf_await:
  "wf_client c \<Longrightarrow> wf_client (fst (send_request_and_wait_async_await c meth rid fut ev))"
  unfolding wf_client_def send_request_and_wait_async_await_def
  by (auto simp: Let_def set_future_def split: fut_state.splits wait_event.splits if_splits)

lemma wf_cong:
  "wf_client c \<Longrightarrow> pending_requests c' = pending_requests c \<Longrightarrow>
   request_id_counter c' = request_id_counter c \<Longrightarrow> next_future c' = next_future c \<Longrightarrow>
   wf_client c'"
  by (simp add: wf_client_def)

lemma wf_disconnect: "wf_client c \<Longrightarrow> wf_client (fst (disconnect env c))"
  by (rule wf_cong) (simp_all add: disconnect_frame)

lemma wf_disconnect_async: "wf_client c \<Longrightarrow> wf_client (fst (disconnect_async env c))"
  by (rule wf_cong) (simp_all add: disconnect_async_frame)

lemma send_ok:
  assumes "is_connected c" "stdin_open c" "\<not> write_fails env"
  shows "send_request_and_wait_async_send rt env c meth =
     (c\<lparr>request_id_counter := request_id_counter c + 1,
        futures := (futures c)(next_future c := Pending),
        next_future := Suc (next_future c),
        pending_requests := (pending_requests c)(str_int (request_id_counter c + 1) \<mapsto> next_future c)\<rparr>,
      Inr (str_int (request_id_counter c + 1), next_future c))"
  using assms
  by (simp add: send_request_and_wait_async_send_def get_next_request_id_def create_future_def
      Let_def)

lemma send_Inr:
  assumes "send_request_and_wait_async_send rt env c meth = (c', Inr (rid, fut))"
  shows "is_connected c \<and> stdin_open c \<and> \<not> write_fails env"
  using assms
  by (auto simp: send_request_and_wait_async_send_def Let_def split: if_splits prod.splits option.splits)

text \<open>
  Registration is an unconditional dict assignment (\<open>send_ok\<close>). In a state satisfying
  the invariant the id it uses is not pending, so it adds one entry and keeps every
  other entry, with its future and that future's state.
\<close>

lemma send_registers:
  assumes wf: "wf_client c"
    and eq: "send_request_and_wait_async_send rt env c meth = (c', Inr (rid, fut))"
  shows "pending_requests c rid = None \<and>
         pending_requests c' = (pending_requests c)(rid \<mapsto> fut) \<and>
         futures c' fut = Pending \<and>
         (\<forall>k r. pending_requests c k = Some r \<longrightarrow>
            pending_requests c' k = Some r \<and> r \<noteq> fut \<and> futures c' r = futures c r)"
proof -
  from send_Inr [OF eq] have ok: "is_connected c" "stdin_open c" "\<not> write_fails env" by simp_all
  from eq have rid: "rid = str_int (request_id_counter c + 1)" and fut: "fut = next_future c"
    and c': "c' = c\<lparr>request_id_counter := request_id_counter c + 1,
        futures := (futures c)(next_future c := Pending),
        next_future := Suc (next_future c),
        pending_requests := (pending_requests c)(str_int (request_id_counter c + 1) \<mapsto> next_future c)\<rparr>"
    by (auto simp: send_ok [OF ok])
  have fresh: "pending_requests c rid = None" unfolding rid by (rule wf_fresh_id [OF wf])
  have old: "pending_requests c' k = Some r \<and> r \<noteq> fut \<and> futures c' r = futures c r"
    if kr: "pending_requests c k = Some r" for k r
  proof -
    from wf kr have lt: "r < next_future c" unfolding wf_client_def by blast
    from kr fresh have "k \<noteq> rid" by auto
    with kr lt show ?thesis by (simp add: c' rid fut)
  qed
  from fresh old show ?thesis by (simp add: c' rid fut)
qed

lemma wf_weaken:
  assumes wf: "wf_client c"
    and sub: "\<And>k r. pending_requests c' k = Some r \<Longrightarrow> pending_requests c k = Some r"
    and cnt: "request_id_counter c \<le> request_id_counter c'"
    and nf: "next_future c \<le> next_future c'"
  shows "wf_client c'"
  unfolding wf_client_def
proof (intro conjI allI impI)
  from wf cnt show "0 \<le> request_id_counter c'" unfolding wf_client_def by simp
next
  fix k r assume "pending_requests c' k = Some r"
  then have kr: "pending_requests c k = Some r" by (rule sub)
  with wf have "r < next_future c" unfolding wf_client_def by blast
  with nf show "r < next_future c'" by simp
  from wf kr obtain n where "0 < n" "n \<le> request_id_counter c" "k = str_int n"
    unfolding wf_client_def by blast
  with cnt show "\<exists>n>0. n \<le> request_id_counter c' \<and> k = str_int n" by auto
next
  fix k k' r
  assume "pending_requests c' k = Some r" "pending_requests c' k' = Some r"
  then have "pending_requests c k = Some r" "pending_requests c k' = Some r"
    by (auto dest: sub)
  with wf show "k = k'" unfolding wf_client_def by blast
qed

lemma wf_register:
  assumes wf: "wf_client c"
  shows "wf_client (c\<lparr>request_id_counter := request_id_counter c + 1,
        futures := f,
        next_future := Suc (next_future c),
        pending_requests :=
          (pending_requests c)(str_int (request_id_counter c + 1) \<mapsto> next_future c)\<rparr>)"
    (is "wf_client ?c'")
  unfolding wf_client_def
proof (intro conjI allI impI)
  from wf show "0 \<le> request_id_counter ?c'" unfolding wf_client_def by simp
next
  fix k r assume a: "pending_requests ?c' k = Some r"
  show "r < next_future ?c'"
  proof (cases "k = str_int (request_id_counter c + 1)")
    case True with a show ?thesis by simp
  next
    case False
    with a have "pending_requests c k = Some r" by simp
    with wf have "r < next_future c" unfolding wf_client_def by blast
    then show ?thesis by simp
  qed
  show "\<exists>n>0. n \<le> request_id_counter ?c' \<and> k = str_int n"
  proof (cases "k = str_int (request_id_counter c + 1)")
    case True
    from wf have "0 \<le> request_id_counter c" unfolding wf_client_def by simp
    with True show ?thesis by (intro exI [of _ "request_id_counter c + 1"]) simp
  next
    case False
    with a have "pending_requests c k = Some r" by simp
    with wf obtain n where "0 < n" "n \<le> request_id_counter c" "k = str_int n"
      unfolding wf_client_def by blast
    then show ?thesis by (intro exI [of _ n]) simp
  qed
next
  fix k k' r
  assume a: "pending_requests ?c' k = Some r" and b: "pending_requests ?c' k' = Some r"
  have old: "r' < next_future c" if "pending_requests c k0 = Some r'" for k0 r'
    using wf that unfolding wf_client_def by blast
  show "k = k'"
  proof (cases "k = str_int (request_id_counter c + 1)")
    case True
    with a have r: "r = next_future c" by simp
    show ?thesis
    proof (rule ccontr)
      assume "k \<noteq> k'"
      with True b have "pending_requests c k' = Some r" by simp
      from old [OF this] r show False by simp
    qed
  next
    case False
    with a have ka: "pending_requests c k = Some r" by simp
    show ?thesis
    proof (cases "k' = str_int (request_id_counter c + 1)")
      case True
      with b have "r = next_future c" by simp
      with old [OF ka] show ?thesis by simp
    next
      case False
      with b have "pending_requests c k' = Some r" by simp
      with wf ka show ?thesis unfolding wf_client_def by blast
    qed
  qed
qed

lemma wf_send:
  assumes wf: "wf_client c"
  shows "wf_client (fst (send_request_and_wait_async_send rt env c meth))"
proof (cases "is_connected c \<and> stdin_open c")
  case False
  then show ?thesis using wf by (auto simp: send_request_and_wait_async_send_def)
next
  case True
  show ?thesis
  proof (cases "write_fails env")
    case False
    with True show ?thesis by (simp add: send_ok wf_register [OF wf])
  next
    case wfail: True
    have pend: "pending_requests (fst (send_request_and_wait_async_send rt env c meth)) =
        (pending_requests c)(str_int (request_id_counter c + 1) := None)"
      and cnt: "request_id_counter (fst (send_request_and_wait_async_send rt env c meth)) =
        request_id_counter c + 1"
      and nf: "next_future (fst (send_request_and_wait_async_send rt env c meth)) =
        Suc (next_future c)"
      using True wfail
      by (simp_all add: send_request_and_wait_async_send_def get_next_request_id_def
          create_future_def Let_def set_future_def stdin_lost_def disconnect_async_frame
          case_prod_beta fut_done_def split: option.splits)
    show ?thesis
      by (rule wf_weaken [OF wf]) (auto simp: pend cnt nf split: if_splits)
  qed
qed











subsection \<open>\<open>call_tool\<close>\<close>

lemma send_request_and_wait_raises_MCPError:
  "send_request_and_wait rt c meth outcome = Inl e \<Longrightarrow> \<exists>d. e = MCPError d"
  by (auto simp: send_request_and_wait_def mcp_error_def split: if_splits sum.splits py_exc.splits)

lemma call_tool_body_reaches_loads:
  assumes "first_content_text result = Some text"
  shows "call_tool_body rt result = py_json_loads rt (JStr text)"
  using assms
  by (auto simp: first_content_text_def call_tool_body_def py_truthy_def py_in_def dict_has_def
      py_getitem_def py_getitem_0_def is_list_def
      split: json.splits option.splits list.splits)

lemma has_error_key_error_dict [simp]: "has_error_key (error_dict m)"
  by (simp add: has_error_key_def error_dict_def dict_has_def)

lemma call_tool_body_no_text:
  assumes "first_content_text result = None"
  shows "(\<exists>v. call_tool_body rt result = Inr v \<and> has_error_key v) \<or>
         (\<exists>e. call_tool_body rt result = Inl e \<and> e \<noteq> JSONDecodeError)"
  using assms
  by (auto simp: first_content_text_def call_tool_body_def py_truthy_def py_in_def dict_has_def
      py_getitem_def py_getitem_0_def is_list_def py_json_loads_def
      split: json.splits option.splits list.splits bool.splits if_splits)

lemma decode_error_raw_text_ok:
  assumes "first_content_text result = Some text"
  shows "decode_error_raw_text result = Inr (JStr text)"
  using assms
  by (auto simp: first_content_text_def decode_error_raw_text_def py_truthy_def py_getitem_0_def
      split: json.splits option.splits list.splits)

lemma call_tool_except_other:
  "e \<noteq> JSONDecodeError \<Longrightarrow> \<exists>m. call_tool_except rt res e = Inr (error_dict m)"
  by (cases e) (auto simp: call_tool_except_def)

lemma call_tool_except_decode:
  "decode_error_raw_text r = Inr raw \<Longrightarrow>
   \<exists>m. call_tool_except rt (Some r) JSONDecodeError = Inr (error_dict m)"
  by (auto simp: call_tool_except_def)

lemma call_tool_unhealthy:
  "\<not> is_healthy c \<Longrightarrow> \<exists>m. call_tool rt c tool_name outcome = Inr (error_dict m)"
  by (auto simp: call_tool_def)

lemma call_tool_request_fails:
  assumes "send_request_and_wait rt c ''tools/call'' outcome = Inl e"
  shows "\<exists>m. call_tool rt c tool_name outcome = Inr (error_dict m)"
proof (cases "is_healthy c")
  case False
  then show ?thesis by (rule call_tool_unhealthy)
next
  case True
  from send_request_and_wait_raises_MCPError [OF assms] have "e \<noteq> JSONDecodeError" by auto
  from call_tool_except_other [OF this, of rt None] True assms
  show ?thesis by (simp add: call_tool_def)
qed

lemma call_tool_no_text:
  assumes "first_content_text result = None"
  shows "\<exists>v. call_tool rt c tool_name (Inr result) = Inr v \<and> has_error_key v"
proof (cases "is_healthy c")
  case False
  from call_tool_unhealthy [OF this] show ?thesis by (metis has_error_key_error_dict)
next
  case True
  show ?thesis
  proof (cases "send_request_and_wait rt c ''tools/call'' (Inr result)")
    case (Inl e)
    from call_tool_request_fails [OF this] show ?thesis by (metis has_error_key_error_dict)
  next
    case (Inr r)
    then have r: "r = result"
      by (simp add: send_request_and_wait_def split: if_splits)
    from call_tool_body_no_text [OF assms, of rt]
    show ?thesis
    proof
      assume "\<exists>v. call_tool_body rt result = Inr v \<and> has_error_key v"
      with True Inr r show ?thesis by (auto simp: call_tool_def)
    next
      assume "\<exists>e. call_tool_body rt result = Inl e \<and> e \<noteq> JSONDecodeError"
      then obtain e where e: "call_tool_body rt result = Inl e" "e \<noteq> JSONDecodeError" by blast
      from call_tool_except_other [OF e(2), of rt "Some result"] e(1) True Inr r
      show ?thesis by (auto simp: call_tool_def)
    qed
  qed
qed

lemma call_tool_text:
  assumes "first_content_text result = Some text"
    and "is_healthy c" "loop_running c = Some True"
  shows "(\<forall>v. json_loads rt text = Some v \<longrightarrow> call_tool rt c tool_name (Inr result) = Inr v) \<and>
         (json_loads rt text = None \<longrightarrow>
            (\<exists>m. call_tool rt c tool_name (Inr result) = Inr (error_dict m)))"
proof -
  have send: "send_request_and_wait rt c ''tools/call'' (Inr result) = Inr result"
    using assms(3) by (simp add: send_request_and_wait_def)
  have body: "call_tool_body rt result =
      (case json_loads rt text of Some j \<Rightarrow> Inr j | None \<Rightarrow> Inl JSONDecodeError)"
    by (simp add: call_tool_body_reaches_loads [OF assms(1)] py_json_loads_def)
  from call_tool_except_decode [OF decode_error_raw_text_ok [OF assms(1)], of rt]
  show ?thesis
    using assms(2) by (auto simp: call_tool_def send body)
qed

subsection \<open>The server's responses\<close>

lemma has_result_send_response [simp]:
  "has_result (send_response i r e) = (r \<noteq> JNull)"
  by (simp add: has_result_def send_response_def dict_has_def)

lemma has_error_send_response [simp]:
  "has_error (send_response i r e) = (e \<noteq> JNull)"
  by (simp add: has_error_def send_response_def dict_has_def)

lemma handle_tools_call_xor:
  "handle_tools_call rt env req_id params = Sent m \<Longrightarrow> has_result m \<noteq> has_error m"
  by (auto simp: handle_tools_call_def Let_def create_error_response_def
      format_tool_call_response_content_def split: json.splits sum.splits if_splits)

lemma handle_resources_read_xor:
  "handle_resources_read rt env req_id params = Sent m \<Longrightarrow> has_result m \<noteq> has_error m"
  by (auto simp: handle_resources_read_def Let_def create_error_response_def
      format_resource_read_response_content_def split: json.splits sum.splits if_splits)

lemma handle_request_xor_unless_shutdown:
  assumes "handle_request rt env (JObj d) = Sent m" and "dict_get d ''method'' \<noteq> JStr ''shutdown''"
  shows "has_result m \<noteq> has_error m"
  using assms
  by (auto simp: handle_request_def Let_def create_error_response_def initialize_result_def
      dest: handle_tools_call_xor handle_resources_read_xor split: if_splits)

subsection \<open>The pump\<close>

lemma handle_response_keeps_running:
  "keep_alive (fst (handle_response rt c r)) = keep_alive c \<and>
   process (fst (handle_response rt c r)) = process c"
  by (auto simp: handle_response_def Let_def set_future_def
      split: json.splits option.splits sum.splits)

lemma short_line: "length line \<le> 1000 \<Longrightarrow> length (line_content line) \<le> stream_limit"
  by (auto simp: line_content_def stream_limit_def)

lemma stdout_reader_line:
  assumes "keep_alive c" "process c \<noteq> None" "line \<noteq> []"
    and "length (line_content line) \<le> stream_limit"
  shows "stdout_reader rt c (ReadLine line # evs) =
     (case bytes_decode rt line of
        None \<Rightarrow> reader_finished c
      | Some text \<Rightarrow>
          if str_strip rt text = [] then stdout_reader rt c evs
          else
            (case json_loads rt (str_strip rt text) of
               None \<Rightarrow> stdout_reader rt c evs
             | Some response \<Rightarrow> stdout_reader rt (fst (handle_response rt c response)) evs))"
  using assms by (simp add: stdout_reader.simps(2) Let_def split: option.splits)

lemma stdout_reader_skips_bad_json:
  assumes run: "keep_alive c" "process c \<noteq> None"
    and l1: "l1 \<noteq> []" "bytes_decode rt l1 = Some t1" "str_strip rt t1 \<noteq> []"
            "json_loads rt (str_strip rt t1) = Some r1"
    and bad: "bad \<noteq> []" "bytes_decode rt bad = Some tb" "json_loads rt (str_strip rt tb) = None"
    and l2: "l2 \<noteq> []" "bytes_decode rt l2 = Some t2" "str_strip rt t2 \<noteq> []"
            "json_loads rt (str_strip rt t2) = Some r2"
    and len: "length (line_content l1) \<le> stream_limit" "length (line_content bad) \<le> stream_limit"
             "length (line_content l2) \<le> stream_limit"
  shows "stdout_reader rt c [ReadLine l1, ReadLine bad, ReadLine l2] =
           (fst (handle_response rt (fst (handle_response rt c r1)) r2), False)"
proof -
  let ?c1 = "fst (handle_response rt c r1)"
  have run1: "keep_alive ?c1" "process ?c1 \<noteq> None"
    using run by (simp_all add: handle_response_keeps_running)
  have "stdout_reader rt c [ReadLine l1, ReadLine bad, ReadLine l2] =
      stdout_reader rt ?c1 [ReadLine bad, ReadLine l2]"
    by (simp add: stdout_reader_line [OF run l1(1) len(1)] l1)
  also have "\<dots> = stdout_reader rt ?c1 [ReadLine l2]"
    by (simp add: stdout_reader_line [OF run1 bad(1) len(2)] bad)
  also have "\<dots> = stdout_reader rt (fst (handle_response rt ?c1 r2)) []"
    by (simp add: stdout_reader_line [OF run1 l2(1) len(3)] l2)
  finally show ?thesis by simp
qed

lemma stdout_reader_stops_at_long_line:
  assumes "stream_limit < length (line_content line)"
  shows "stdout_reader rt c (ReadLine line # evs) = reader_finished c"
  using assms by (simp add: stdout_reader.simps(2))

lemma stdout_reader_stopped:
  assumes "\<not> keep_alive c"
  shows "futures (fst (stdout_reader rt c evs)) = futures c \<and>
         pending_requests (fst (stdout_reader rt c evs)) = pending_requests c"
  using assms by (cases evs) (simp_all add: stdout_reader.simps(2) reader_finished_def)

lemma sample_line_1:
  "bytes_decode sample_runtime line_1 = Some line_1"
  \<open>str_strip sample_runtime line_1 = ''{"id": "1", "result": true}''\<close>
  by (simp_all add: sample_runtime_def line_1_def is_blank_def)

lemma sample_loads_1:
  \<open>json_loads sample_runtime ''{"id": "1", "result": true}'' =
     Some (JObj [(''id'', JStr ''1''), (''result'', JBool True)])\<close>
  by (simp add: sample_runtime_def sample_loads_def)

lemma wf_reader_finished: "wf_client c \<Longrightarrow> wf_client (fst (reader_finished c))"
  by (rule wf_cong) (simp_all add: reader_finished_def)

lemma wf_stdout_reader:
  "wf_client c \<Longrightarrow> wf_client (fst (stdout_reader rt c evs))"
proof (induction evs arbitrary: c)
  case Nil
  then show ?case by simp
next
  case (Cons ev evs)
  then show ?case
    by (auto simp: stdout_reader.simps(2) Let_def wf_reader_finished wf_handle_response
        split: read_event.splits option.splits)
qed

subsection \<open>Claims\<close>

text \<open>
  C1. In a state satisfying the invariant, a response (with a result, or with an error
  object) whose id, coerced to a string, is the key of a pending entry with an unresolved
  future is handled without an exception: that future holds the result value, or an
  \<open>MCPError\<close> with the error object when there is no result; the entry is removed and
  the table is otherwise the same; every other pending entry holds another future, and
  no other future changes. The next request id is the decimal text of the incremented
  counter and is not the key of any pending entry.
\<close>

theorem handle_response_resolves_matching:
  assumes wf: "wf_client c"
    and id: "dict_get d ''id'' = rid" "rid \<noteq> JNull"
    and entry: "pending_requests c (py_str rt rid) = Some r" "futures c r = Pending"
    and shape: "map_of d ''result'' \<noteq> None \<or> (\<exists>e. map_of d ''error'' = Some (JObj e))"
  shows "snd (handle_response rt c (JObj d)) = None \<and>
    (\<forall>v. map_of d ''result'' = Some v \<longrightarrow>
       futures (fst (handle_response rt c (JObj d))) r = Result v) \<and>
    (\<forall>e. map_of d ''result'' = None \<and> map_of d ''error'' = Some (JObj e) \<longrightarrow>
       futures (fst (handle_response rt c (JObj d))) r = Exception (MCPError e)) \<and>
    pending_requests (fst (handle_response rt c (JObj d))) =
       (pending_requests c)(py_str rt rid := None) \<and>
    (\<forall>k' r'. k' \<noteq> py_str rt rid \<and> pending_requests c k' = Some r' \<longrightarrow>
       r' \<noteq> r \<and>
       futures (fst (handle_response rt c (JObj d))) r' = futures c r') \<and>
    (\<forall>r'. r' \<noteq> r \<longrightarrow> futures (fst (handle_response rt c (JObj d))) r' = futures c r') \<and>
    snd (get_next_request_id c) = str_int (request_id_counter c + 1) \<and>
    request_id_counter (fst (get_next_request_id c)) = request_id_counter c + 1 \<and>
    pending_requests c (snd (get_next_request_id c)) = None"
proof -
  have other: "r' \<noteq> r" if "k' \<noteq> py_str rt rid" "pending_requests c k' = Some r'" for k' r'
    using wf entry(1) that unfolding wf_client_def by blast
  have fresh: "pending_requests c (snd (get_next_request_id c)) = None"
    using wf_fresh_id [OF wf] by (simp add: get_next_request_id_def Let_def)
  show ?thesis
    using shape other fresh
    by (auto simp: handle_response_matched [OF id entry] get_next_request_id_def Let_def
        split: option.splits json.splits)
qed

theorem handle_response_resolves_matching_witness:
  "futures (fst (handle_response sample_runtime busy_client
       (JObj [(''id'', JInt 2), (''result'', JBool False)]))) 1 = Result (JBool False) \<and>
   futures (fst (handle_response sample_runtime busy_client
       (JObj [(''id'', JInt 2), (''result'', JBool False)]))) 0 = futures busy_client 0 \<and>
   pending_requests (fst (handle_response sample_runtime busy_client
       (JObj [(''id'', JInt 2), (''result'', JBool False)]))) ''1'' = Some 0 \<and>
   pending_requests (fst (handle_response sample_runtime busy_client
       (JObj [(''id'', JInt 2), (''result'', JBool False)]))) ''2'' = None \<and>
   snd (get_next_request_id busy_client) = ''3''"
proof -
  let ?d = "[(''id'', JInt 2), (''result'', JBool False)]"
  have id: "dict_get ?d ''id'' = JInt 2" "JInt 2 \<noteq> JNull" by (simp_all add: dict_get_def)
  have key: "py_str sample_runtime (JInt 2) = ''2''" by (simp add: py_str_def str_int_2)
  have entry: "pending_requests busy_client (py_str sample_runtime (JInt 2)) = Some 1"
    "futures busy_client 1 = Pending"
    unfolding key by (simp_all add: busy_client_def)
  have shape: "map_of ?d ''result'' \<noteq> None \<or> (\<exists>e. map_of ?d ''error'' = Some (JObj e))" by simp
  have three: "str_int (request_id_counter busy_client + 1) = ''3''"
    by (simp add: busy_client_def str_int_def str_nat.simps digit_char_def)
  have p1: "pending_requests busy_client ''1'' = Some 0" by (simp add: busy_client_def)
  from handle_response_resolves_matching [OF wf_busy_client id entry shape]
  show ?thesis unfolding key three using p1 by simp
qed

text \<open>
  C3. A response whose id was never registered, or whose entry holds a future that is
  already done, is handled without an exception and without touching any future; the
  only change to the table is that the response's own key is absent afterwards, and a
  never registered id changes nothing at all.
\<close>

theorem handle_response_unmatched:
  assumes "dict_get d ''id'' = rid" and "rid \<noteq> JNull"
    and "pending_requests c (py_str rt rid) = None \<or>
         (\<exists>r. pending_requests c (py_str rt rid) = Some r \<and> fut_done (futures c r))"
  shows "snd (handle_response rt c (JObj d)) = None \<and>
         futures (fst (handle_response rt c (JObj d))) = futures c \<and>
         (\<forall>k. k \<noteq> py_str rt rid \<longrightarrow>
            pending_requests (fst (handle_response rt c (JObj d))) k = pending_requests c k) \<and>
         (pending_requests c (py_str rt rid) = None \<longrightarrow>
            fst (handle_response rt c (JObj d)) = c)"
  using assms by (auto simp: handle_response_def Let_def pop_absent set_future_def)

theorem handle_response_unmatched_witness:
  "handle_response sample_runtime busy_client
     (JObj [(''id'', JInt 7), (''result'', JBool True)]) = (busy_client, None) \<and>
   snd (handle_response sample_runtime (set_future busy_client 0 Cancelled)
     (JObj [(''id'', JStr ''1''), (''result'', JBool True)])) = None \<and>
   futures (fst (handle_response sample_runtime (set_future busy_client 0 Cancelled)
     (JObj [(''id'', JStr ''1''), (''result'', JBool True)]))) 0 = Cancelled \<and>
   pending_requests (fst (handle_response sample_runtime (set_future busy_client 0 Cancelled)
     (JObj [(''id'', JStr ''1''), (''result'', JBool True)]))) ''2'' = Some 1"
proof -
  let ?d = "[(''id'', JInt 7), (''result'', JBool True)]"
  have id: "dict_get ?d ''id'' = JInt 7" by (simp add: dict_get_def)
  have key: "py_str sample_runtime (JInt 7) = ''7''"
    by (simp add: py_str_def str_int_def str_nat.simps digit_char_def)
  have absent: "pending_requests busy_client (py_str sample_runtime (JInt 7)) = None"
    unfolding key by (simp add: busy_client_def)
  from handle_response_unmatched [OF id _ disjI1 [OF absent]] absent
  have a: "handle_response sample_runtime busy_client (JObj ?d) = (busy_client, None)"
    by (simp add: prod_eq_iff)
  let ?e = "[(''id'', JStr ''1''), (''result'', JBool True)]"
  let ?c = "set_future busy_client 0 Cancelled"
  have id1: "dict_get ?e ''id'' = JStr ''1''" by (simp add: dict_get_def)
  have key1: "py_str sample_runtime (JStr ''1'') = ''1''" by (simp add: py_str_def)
  have settled: "\<exists>r. pending_requests ?c (py_str sample_runtime (JStr ''1'')) = Some r \<and>
      fut_done (futures ?c r)"
    unfolding key1 by (simp add: busy_client_def set_future_def fut_done_def)
  have c: "futures ?c 0 = Cancelled" "pending_requests ?c ''2'' = Some 1"
    by (simp_all add: busy_client_def set_future_def)
  from handle_response_unmatched [OF id1 _ disjI2 [OF settled]] c
  have b: "snd (handle_response sample_runtime ?c (JObj ?e)) = None \<and>
     futures (fst (handle_response sample_runtime ?c (JObj ?e))) 0 = Cancelled \<and>
     pending_requests (fst (handle_response sample_runtime ?c (JObj ?e))) ''2'' = Some 1"
    unfolding key1 by simp
  from a b show ?thesis by blast
qed

text \<open>
  C4. When the wait of a call ends by the timeout while its future is pending, the call
  raises an \<open>MCPError\<close> with code -32003 and its own entry is gone from the table
  (every other entry is as before); a response with that id handled afterwards raises
  nothing and leaves the client, and so every other entry and every future, as it was.
\<close>

theorem timeout_then_late_response_dropped:
  assumes pend: "futures c fut = Pending"
    and late: "dict_get d ''id'' = resp_id" "resp_id \<noteq> JNull" "py_str rt resp_id = rid"
  shows "snd (send_request_and_wait_async_await c meth rid fut WaitTimeout) =
           Inl (MCPError [(''message'', JStr (''Request timed out: '' @ meth)),
                          (''code'', JInt (- 32003))]) \<and>
         pending_requests (fst (send_request_and_wait_async_await c meth rid fut WaitTimeout)) rid
           = None \<and>
         (\<forall>k. k \<noteq> rid \<longrightarrow>
            pending_requests (fst (send_request_and_wait_async_await c meth rid fut WaitTimeout)) k
              = pending_requests c k) \<and>
         handle_response rt (fst (send_request_and_wait_async_await c meth rid fut WaitTimeout))
            (JObj d) =
           (fst (send_request_and_wait_async_await c meth rid fut WaitTimeout), None)"
proof -
  let ?c' = "fst (send_request_and_wait_async_await c meth rid fut WaitTimeout)"
  have c': "?c' = (set_future c fut Cancelled)
      \<lparr>pending_requests := (pending_requests (set_future c fut Cancelled))(rid := None)\<rparr>"
    and out: "snd (send_request_and_wait_async_await c meth rid fut WaitTimeout) =
      Inl (mcp_error (''Request timed out: '' @ meth) (- 32003))"
    using pend by (simp_all add: send_request_and_wait_async_await_def Let_def)
  have gone: "pending_requests ?c' rid = None" by (simp add: c')
  have "pending_requests ?c' (py_str rt resp_id) = None" using gone late(3) by simp
  then have "handle_response rt ?c' (JObj d) = (?c', None)"
    using late(1,2) by (simp add: handle_response_def Let_def pop_absent)
  with gone out show ?thesis by (simp add: c' mcp_error_def set_future_def)
qed

theorem timeout_then_late_response_dropped_witness:
  "snd (send_request_and_wait_async_await busy_client ''tools/call'' ''1'' 0 WaitTimeout) =
     Inl (MCPError [(''message'', JStr ''Request timed out: tools/call''),
                    (''code'', JInt (- 32003))]) \<and>
   pending_requests
     (fst (send_request_and_wait_async_await busy_client ''tools/call'' ''1'' 0 WaitTimeout)) ''2''
     = Some 1 \<and>
   handle_response sample_runtime
     (fst (send_request_and_wait_async_await busy_client ''tools/call'' ''1'' 0 WaitTimeout))
     (JObj [(''id'', JStr ''1''), (''result'', JBool True)]) =
   (fst (send_request_and_wait_async_await busy_client ''tools/call'' ''1'' 0 WaitTimeout), None)"
proof -
  let ?d = "[(''id'', JStr ''1''), (''result'', JBool True)]"
  have pend: "futures busy_client 0 = Pending" by (simp add: busy_client_def)
  have late: "dict_get ?d ''id'' = JStr ''1''" "JStr ''1'' \<noteq> JNull"
    "py_str sample_runtime (JStr ''1'') = ''1''"
    by (simp_all add: dict_get_def py_str_def)
  have two: "pending_requests busy_client ''2'' = Some 1" by (simp add: busy_client_def)
  from timeout_then_late_response_dropped [OF pend late, of "''tools/call''"] two
  show ?thesis by simp
qed

text \<open>
  C2, amended. \<open>disconnect\<close> raises nothing, and neither it nor \<open>_disconnect_async\<close>
  touches the pending-call table or any future: every entry pending before is pending
  after, still unresolved. A caller still waiting on such a future gets an \<open>MCPError\<close>
  when its wait ends, with code -32003 on its timeout and -32004 on cancellation. After
  a \<open>disconnect\<close> on the client's running loop the pump dispatches nothing more,
  whatever it reads, so it resolves none of these entries.
\<close>

theorem disconnect_leaves_pending_calls:
  "snd (disconnect env c) = None \<and>
   pending_requests (fst (disconnect env c)) = pending_requests c \<and>
   futures (fst (disconnect env c)) = futures c \<and>
   pending_requests (fst (disconnect_async env c)) = pending_requests c \<and>
   futures (fst (disconnect_async env c)) = futures c \<and>
   (futures c fut = Pending \<longrightarrow>
      snd (send_request_and_wait_async_await (fst (disconnect env c)) meth rid fut WaitTimeout) =
        Inl (MCPError [(''message'', JStr (''Request timed out: '' @ meth)),
                       (''code'', JInt (- 32003))]) \<and>
      snd (send_request_and_wait_async_await (fst (disconnect env c)) meth rid fut WaitCancelled) =
        Inl (MCPError [(''message'',
                          JStr (''Request cancelled, possibly due to connection loss: '' @ meth)),
                       (''code'', JInt (- 32004))])) \<and>
   (loop_running c = Some True \<longrightarrow>
      futures (fst (stdout_reader rt (fst (disconnect env c)) evs)) = futures c \<and>
      pending_requests (fst (stdout_reader rt (fst (disconnect env c)) evs)) = pending_requests c)"
proof -
  have frame: "snd (disconnect env c) = None"
    "pending_requests (fst (disconnect env c)) = pending_requests c"
    "futures (fst (disconnect env c)) = futures c"
    "pending_requests (fst (disconnect_async env c)) = pending_requests c"
    "futures (fst (disconnect_async env c)) = futures c"
    by (simp_all add: disconnect_frame disconnect_async_frame) (simp add: disconnect_def)
  have wait: "snd (send_request_and_wait_async_await (fst (disconnect env c)) meth rid fut WaitTimeout) =
        Inl (MCPError [(''message'', JStr (''Request timed out: '' @ meth)),
                       (''code'', JInt (- 32003))]) \<and>
      snd (send_request_and_wait_async_await (fst (disconnect env c)) meth rid fut WaitCancelled) =
        Inl (MCPError [(''message'',
                          JStr (''Request cancelled, possibly due to connection loss: '' @ meth)),
                       (''code'', JInt (- 32004))])"
    if "futures c fut = Pending"
    using that
    by (simp add: frame send_request_and_wait_async_await_def Let_def mcp_error_def)
  have pump: "futures (fst (stdout_reader rt (fst (disconnect env c)) evs)) = futures c \<and>
      pending_requests (fst (stdout_reader rt (fst (disconnect env c)) evs)) = pending_requests c"
    if "loop_running c = Some True"
  proof -
    from that have "\<not> keep_alive (fst (disconnect env c))"
      by (simp add: disconnect_def disconnect_async_frame)
    from stdout_reader_stopped [OF this] show ?thesis by (simp add: frame)
  qed
  from frame wait pump show ?thesis by blast
qed

theorem disconnect_leaves_pending_calls_witness:
  "futures busy_client 0 = Pending \<and>
   pending_requests (fst (disconnect calm_env busy_client)) = pending_requests busy_client \<and>
   snd (send_request_and_wait_async_await (fst (disconnect calm_env busy_client))
          ''tools/call'' ''1'' 0 WaitTimeout) =
     Inl (MCPError [(''message'', JStr ''Request timed out: tools/call''),
                    (''code'', JInt (- 32003))]) \<and>
   futures (fst (stdout_reader sample_runtime (fst (disconnect calm_env busy_client))
                   [ReadLine line_1])) 0 = Pending"
proof -
  have p: "futures busy_client 0 = Pending" by (simp add: busy_client_def)
  have l: "loop_running busy_client = Some True" by (simp add: busy_client_def)
  from disconnect_leaves_pending_calls
         [of calm_env busy_client 0 "''tools/call''" "''1''" sample_runtime "[ReadLine line_1]"] p l
  show ?thesis by simp
qed

text \<open>
  C2 as stated fails: after \<open>disconnect\<close> of a client with a pending call, the process
  handle is cleared and the call's future is still pending, not failed.
\<close>

theorem disconnect_does_not_resolve_pending:
  "pending_requests busy_client ''1'' = Some 0 \<and> futures busy_client 0 = Pending \<and>
   pending_requests (fst (disconnect calm_env busy_client)) ''1'' = Some 0 \<and>
   futures (fst (disconnect calm_env busy_client)) 0 = Pending \<and>
   process (fst (disconnect calm_env busy_client)) = None"
proof -
  have "on_terminate calm_env \<noteq> KillRaises" by (simp add: calm_env_def)
  from disconnect_async_clears [OF this, of busy_client]
  have "process (fst (disconnect calm_env busy_client)) = None"
    by (simp add: disconnect_def busy_client_def)
  then show ?thesis
    by (simp add: disconnect_frame) (simp add: busy_client_def)
qed




text \<open>
  C5 fails on the code for a line that is not UTF-8: \<open>line.decode('utf-8')\<close> stands
  outside the \<open>try\<close> that guards the processing of a message, so its
  \<open>UnicodeDecodeError\<close> ends the loop. Of two valid responses around such a line the
  first is dispatched, the pump finishes, and the second request stays pending. (A line
  within the stream's limit that decodes but is not JSON is skipped and both are
  dispatched: \<open>stdout_reader_skips_bad_json\<close>; a line over the limit ends the pump
  too: \<open>stdout_reader_stops_at_long_line\<close>.)
\<close>

theorem stdout_reader_stops_at_undecodable_line:
  "snd (stdout_reader sample_runtime busy_client
          [ReadLine line_1, ReadLine [CHR 0xFF, CHR 0x0A], ReadLine line_2]) = True \<and>
   futures (fst (stdout_reader sample_runtime busy_client
          [ReadLine line_1, ReadLine [CHR 0xFF, CHR 0x0A], ReadLine line_2])) 0 = Result (JBool True) \<and>
   futures (fst (stdout_reader sample_runtime busy_client
          [ReadLine line_1, ReadLine [CHR 0xFF, CHR 0x0A], ReadLine line_2])) 1 = Pending \<and>
   pending_requests (fst (stdout_reader sample_runtime busy_client
          [ReadLine line_1, ReadLine [CHR 0xFF, CHR 0x0A], ReadLine line_2])) ''2'' = Some 1 \<and>
   reader_task (fst (stdout_reader sample_runtime busy_client
          [ReadLine line_1, ReadLine [CHR 0xFF, CHR 0x0A], ReadLine line_2])) = Some TaskDone"
proof -
  let ?r1 = "JObj [(''id'', JStr ''1''), (''result'', JBool True)]"
  let ?c1 = "fst (handle_response sample_runtime busy_client ?r1)"
  have run: "keep_alive busy_client" "process busy_client \<noteq> None"
    by (simp_all add: busy_client_def)
  have run1: "keep_alive ?c1" "process ?c1 \<noteq> None"
    using run by (simp_all add: handle_response_keeps_running)
  have ne: "line_1 \<noteq> []" by (simp add: line_1_def)
  have len: "length (line_content line_1) \<le> stream_limit"
    by (rule short_line) (simp add: line_1_def)
  have len_bad: "length (line_content [CHR 0xFF, CHR 0x0A]) \<le> stream_limit"
    by (rule short_line) simp
  have bad: "bytes_decode sample_runtime [CHR 0xFF, CHR 0x0A] = None"
    by (simp add: sample_runtime_def)
  have step1: "stdout_reader sample_runtime busy_client
          [ReadLine line_1, ReadLine [CHR 0xFF, CHR 0x0A], ReadLine line_2] =
        stdout_reader sample_runtime ?c1 [ReadLine [CHR 0xFF, CHR 0x0A], ReadLine line_2]"
    by (simp add: stdout_reader_line [OF run ne len] sample_line_1 sample_loads_1)
  have step2: "stdout_reader sample_runtime ?c1 [ReadLine [CHR 0xFF, CHR 0x0A], ReadLine line_2] =
        reader_finished ?c1"
    by (simp add: stdout_reader_line [OF run1 _ len_bad] bad)
  have c1: "?c1 = busy_client\<lparr>pending_requests := (pending_requests busy_client)(''1'' := None),
        futures := (futures busy_client)(0 := Result (JBool True))\<rparr>"
    by (simp add: handle_response_def dict_get_def py_str_def Let_def fut_done_def set_future_def
        busy_client_def)
  show ?thesis
    unfolding step1 step2
    by (simp add: reader_finished_def c1 finish_task_def) (simp add: busy_client_def)
qed

text \<open>
  C8 fails on the code for \<open>shutdown\<close>: the acknowledgment is sent with
  \<open>result=None\<close>, and \<open>send_response\<close> leaves out a field that is \<open>None\<close>, so the
  message has neither \<open>result\<close> nor \<open>error\<close>. (For every other method a message sent
  has exactly one of them: \<open>handle_request_xor_unless_shutdown\<close>.)
\<close>

theorem shutdown_response_has_neither_field:
  "handle_request rt env shutdown_request =
     Sent (JObj [(''jsonrpc'', JStr ''2.0''), (''id'', JInt 1)]) \<and>
   \<not> has_result (JObj [(''jsonrpc'', JStr ''2.0''), (''id'', JInt 1)]) \<and>
   \<not> has_error (JObj [(''jsonrpc'', JStr ''2.0''), (''id'', JInt 1)])"
  by (simp add: handle_request_def shutdown_request_def dict_get_def py_truthy_def
      send_response_def has_result_def has_error_def dict_has_def)

text \<open>
  C10. \<open>call_tool\<close> always returns a value and no exception reaches its caller. The
  value is a dict with an \<open>"error"\<close> key whenever the client is not healthy, its loop
  is not running, the request raised, the result has no first content item with a text
  string, or that text is not JSON; and when the client is healthy, the request returned
  a result and \<open>json.loads\<close> accepts the text of its first content item, the value is
  what \<open>json.loads\<close> returned.
\<close>

theorem call_tool_total:
  "(\<exists>v. call_tool rt c tool_name outcome = Inr v \<and>
        (has_error_key v \<or>
         (\<exists>result text. outcome = Inr result \<and> first_content_text result = Some text \<and>
            json_loads rt text = Some v))) \<and>
   (\<not> is_healthy c \<or> loop_running c \<noteq> Some True \<or> (\<exists>e. outcome = Inl e) \<or>
    (\<exists>result. outcome = Inr result \<and>
       (first_content_text result = None \<or>
        (\<exists>text. first_content_text result = Some text \<and> json_loads rt text = None)))
      \<longrightarrow> (\<exists>v. call_tool rt c tool_name outcome = Inr v \<and> has_error_key v)) \<and>
   (\<forall>result text v.
      is_healthy c \<and> loop_running c = Some True \<and> outcome = Inr result \<and>
      first_content_text result = Some text \<and> json_loads rt text = Some v
      \<longrightarrow> call_tool rt c tool_name outcome = Inr v)"
proof -
  have err: "\<exists>v. call_tool rt c tool_name outcome = Inr v \<and> has_error_key v"
    if "\<exists>m. call_tool rt c tool_name outcome = Inr (error_dict m)"
    using that by (metis has_error_key_error_dict)
  have unhealthy: "\<exists>v. call_tool rt c tool_name outcome = Inr v \<and> has_error_key v"
    if "\<not> is_healthy c"
    by (rule err [OF call_tool_unhealthy [OF that]])
  have noloop: "\<exists>v. call_tool rt c tool_name outcome = Inr v \<and> has_error_key v"
    if "loop_running c \<noteq> Some True"
  proof -
    from that have "send_request_and_wait rt c ''tools/call'' outcome =
        Inl (mcp_error ''Client background loop not running'' (- 32001))"
      by (simp add: send_request_and_wait_def)
    from err [OF call_tool_request_fails [OF this]] show ?thesis .
  qed
  have raised: "\<exists>v. call_tool rt c tool_name outcome = Inr v \<and> has_error_key v"
    if "outcome = Inl e" for e
  proof (cases "loop_running c = Some True")
    case False then show ?thesis by (rule noloop)
  next
    case True
    with that have "\<exists>e'. send_request_and_wait rt c ''tools/call'' outcome = Inl e'"
      by (cases e) (simp_all add: send_request_and_wait_def)
    then obtain e' where "send_request_and_wait rt c ''tools/call'' outcome = Inl e'" ..
    from err [OF call_tool_request_fails [OF this]] show ?thesis .
  qed
  have notext: "\<exists>v. call_tool rt c tool_name outcome = Inr v \<and> has_error_key v"
    if "outcome = Inr result" "first_content_text result = None" for result
    using call_tool_no_text [OF that(2)] that(1) by simp
  have badtext: "\<exists>v. call_tool rt c tool_name outcome = Inr v \<and> has_error_key v"
    if "outcome = Inr result" "first_content_text result = Some s" "json_loads rt s = None"
    for result s
  proof (cases "is_healthy c \<and> loop_running c = Some True")
    case False
    then show ?thesis using unhealthy noloop by blast
  next
    case True
    with call_tool_text [OF that(2), of c rt tool_name] that(1,3) show ?thesis
      by (intro err) simp
  qed
  have good: "call_tool rt c tool_name outcome = Inr v"
    if "is_healthy c" "loop_running c = Some True" "outcome = Inr result"
      "first_content_text result = Some s" "json_loads rt s = Some v"
    for result s v
    using call_tool_text [OF that(4,1,2), of rt tool_name] that(3,5) by simp
  have total: "\<exists>v. call_tool rt c tool_name outcome = Inr v \<and>
        (has_error_key v \<or>
         (\<exists>result text. outcome = Inr result \<and> first_content_text result = Some text \<and>
            json_loads rt text = Some v))"
  proof (cases "is_healthy c \<and> loop_running c = Some True")
    case False
    then show ?thesis using unhealthy noloop by blast
  next
    case True
    show ?thesis
    proof (cases outcome)
      case (Inl e)
      from raised [OF this] show ?thesis by blast
    next
      case (Inr result)
      show ?thesis
      proof (cases "first_content_text result")
        case None
        from notext [OF Inr None] show ?thesis by blast
      next
        case (Some s)
        show ?thesis
        proof (cases "json_loads rt s")
          case None
          from badtext [OF Inr Some None] show ?thesis by blast
        next
          case (Some v)
          from good [OF _ _ Inr \<open>first_content_text result = Some s\<close> Some] True
          have "call_tool rt c tool_name outcome = Inr v" by simp
          with Inr \<open>first_content_text result = Some s\<close> Some show ?thesis by blast
        qed
      qed
    qed
  qed
  from total unhealthy noloop raised notext badtext good show ?thesis by blast
qed

theorem call_tool_total_witness:
  "call_tool sample_runtime busy_client ''search_products'' (Inr tool_reply) = Inr (JArr [JInt 1]) \<and>
   (\<exists>v. call_tool sample_runtime busy_client ''search_products'' (Inl FutureTimeoutError) = Inr v \<and>
        has_error_key v)"
proof -
  have h: "is_healthy busy_client" "loop_running busy_client = Some True"
    by (simp_all add: is_healthy_def busy_client_def task_running_def)
  have t: "first_content_text tool_reply = Some ''[1]''"
    by (simp add: first_content_text_def tool_reply_def)
  have l: "json_loads sample_runtime ''[1]'' = Some (JArr [JInt 1])"
    by (simp add: sample_runtime_def sample_loads_def)
  from call_tool_total [of sample_runtime busy_client "''search_products''" "Inr tool_reply"] h t l
  have a: "call_tool sample_runtime busy_client ''search_products'' (Inr tool_reply) = Inr (JArr [JInt 1])"
    by blast
  from call_tool_total [of sample_runtime busy_client "''search_products''" "Inl FutureTimeoutError"]
  have b: "\<exists>v. call_tool sample_runtime busy_client ''search_products'' (Inl FutureTimeoutError) = Inr v \<and>
        has_error_key v"
    by blast
  from a b show ?thesis by blast
qed



end
